theory Spec2Isabelle
  imports Main "HOL-Library.Word" "HOL-Library.List_Lexorder" "HOL-Library.Multiset"
begin

section \<open>Strings of the host language\<close>

text \<open>
  The component is TypeScript; its strings are sequences of UTF-16 code units, compared
  with \<open>===\<close> unit by unit. A string is falsy exactly when it is empty.
\<close>

type_synonym code_unit = "16 word"
type_synonym jsstring = "code_unit list"

text \<open>Source literals are ASCII; \<open>js\<close> writes one as code units.\<close>

definition js :: "string \<Rightarrow> jsstring" where
  "js lit = map (\<lambda>c. of_nat (of_char c)) lit"

text \<open>
  \<open>String.prototype.trim\<close> strips, at both ends, the code points of the grammar's
  WhiteSpace and LineTerminator productions: TAB, VT, FF, SP, NBSP, ZWNBSP, the Unicode
  space separators, and LF, CR, LS, PS.
\<close>

definition isWhiteSpace :: "code_unit \<Rightarrow> bool" where
  "isWhiteSpace c \<longleftrightarrow>
     c = 0x0009 \<or> c = 0x000A \<or> c = 0x000B \<or> c = 0x000C \<or> c = 0x000D \<or>
     c = 0x0020 \<or> c = 0x00A0 \<or> c = 0x1680 \<or> (0x2000 \<le> c \<and> c \<le> 0x200A) \<or>
     c = 0x2028 \<or> c = 0x2029 \<or> c = 0x202F \<or> c = 0x205F \<or> c = 0x3000 \<or>
     c = 0xFEFF"

definition trim :: "jsstring \<Rightarrow> jsstring" where
  "trim str = rev (dropWhile isWhiteSpace (rev (dropWhile isWhiteSpace str)))"

text \<open>
  \<open>toLowerCase\<close> and \<open>localeCompare\<close> are tables of the runtime (Unicode case
  mapping, the locale's collation). The operations below take them as parameters
  \<open>lower\<close> and \<open>cmp\<close>. The two instances here are their restriction to Basic
  Latin letters and plain code-unit order; they serve to run the model on concrete
  inputs.
\<close>

definition toLowerCaseUnit :: "code_unit \<Rightarrow> code_unit" where
  "toLowerCaseUnit c = (if 0x41 \<le> c \<and> c \<le> 0x5A then c + 0x20 else c)"

definition toLowerCase :: "jsstring \<Rightarrow> jsstring" where
  "toLowerCase str = map toLowerCaseUnit str"

definition codeUnitCompare :: "jsstring \<Rightarrow> jsstring \<Rightarrow> int" where
  "codeUnitCompare a b = (if a = b then 0 else if a < b then - 1 else 1)"

text \<open>
  \<open>Array.prototype.sort\<close> is stable. With a comparator that is a total preorder the
  stable sorted arrangement is unique, and stable insertion from the right produces it.
\<close>

fun insertSorted :: "('a \<Rightarrow> 'a \<Rightarrow> int) \<Rightarrow> 'a \<Rightarrow> 'a list \<Rightarrow> 'a list" where
  "insertSorted cmp x [] = [x]"
| "insertSorted cmp x (y # ys) =
     (if cmp x y \<le> 0 then x # y # ys else y # insertSorted cmp x ys)"

definition sortBy :: "('a \<Rightarrow> 'a \<Rightarrow> int) \<Rightarrow> 'a list \<Rightarrow> 'a list" where
  "sortBy cmp xs = foldr (insertSorted cmp) xs []"

text \<open>
  A consistent comparator, the kind \<open>sort\<close> is specified for: its relation
  "not after" is total and transitive.
\<close>

definition consistentComparator :: "('a \<Rightarrow> 'a \<Rightarrow> int) \<Rightarrow> bool" where
  "consistentComparator cmp \<longleftrightarrow>
     (\<forall>a b. cmp a b \<le> 0 \<or> cmp b a \<le> 0) \<and>
     (\<forall>a b c. cmp a b \<le> 0 \<longrightarrow> cmp b c \<le> 0 \<longrightarrow> cmp a c \<le> 0)"

section \<open>Data model\<close>

text \<open>The types \<open>Profile\<close>, \<open>Label\<close> and \<open>Todo\<close> of the component.\<close>

record Profile =
  profile_id :: jsstring
  profile_name :: jsstring

text \<open>
  \<open>created_at\<close> is absent on the labels embedded in a fetched todo, whose projection
  is \<open>labels(id, name)\<close>.
\<close>

record Label =
  label_id :: jsstring
  label_name :: jsstring
  created_at :: "jsstring option"

record Todo =
  todo_id :: int
  todo_title :: jsstring
  todo_description :: "jsstring option"
  due_date :: "jsstring option"
  completed :: bool
  assignee_id :: jsstring
  assignee :: "Profile option"
  todo_labels :: "Label list option"

text \<open>A row of the join table as the todo query embeds it.\<close>

record TodoLabelRow =
  tl_label_id :: jsstring
  tl_labels :: "Label option"

text \<open>A todo as \<open>fetchTodos\<close> receives it, before the labels are flattened.\<close>

record FetchedTodo =
  fetched :: Todo
  fetched_labels :: "TodoLabelRow list option"

text \<open>The \<open>useState\<close> cells of \<open>TodoList\<close>.\<close>

record state =
  todos :: "Todo list"
  users :: "Profile list"
  labels :: "Label list"
  title :: jsstring
  description :: jsstring
  dueDate :: jsstring
  assigneeId :: jsstring
  selectedLabelIds :: "jsstring list"
  newLabelName :: jsstring
  editingId :: "int option"
  filterUserId :: jsstring
  filterLabelIds :: "jsstring list"
  isLabelDropdownOpen :: bool
  isFilterLabelDropdownOpen :: bool

section \<open>The remote store and the observable effects\<close>

text \<open>
  A call of the store's client resolves to a failure carrying an error or to a success
  carrying the data; it never throws.
\<close>

datatype PostgrestError = PostgrestError (message: jsstring)

datatype 'a response = Failure PostgrestError | Success 'a

text \<open>
  The relations a select clause can ask the store to embed in the rows it returns:
  the assignee's profile (\<open>assignee:profiles(id, name)\<close>) and the join rows with
  their labels (\<open>labels:todo_labels(label_id, labels(id, name))\<close>).
\<close>

datatype embedded = EmbedAssignee | EmbedLabels

text \<open>
  The requests the component builds, with their filters and payloads:
  \<^item> \<open>SelectTodos\<close>: all todos with the assignee and the join rows embedded, newest
    first;
  \<^item> \<open>InsertLabel name\<close>: one label row, returned as a single row;
  \<^item> \<open>InsertTodo title description due_date assignee_id\<close>: one todo row, returned;
  \<^item> \<open>UpdateTodo id title description due_date assignee_id\<close>: those four columns
    of the rows whose id matches, returned;
  \<^item> \<open>UpdateCompleted id value embeds\<close>: the completed column of the rows whose
    id matches, returned with the relations of its select clause embedded;
  \<^item> \<open>DeleteTodo id\<close>: the rows of the todo table whose id matches;
  \<^item> \<open>InsertTodoLabels rows\<close>: join rows, each a todo id and a label id;
  \<^item> \<open>DeleteTodoLabels id\<close>: the join rows whose todo id matches.
\<close>

datatype remote_call =
    SelectTodos
  | InsertLabel jsstring
  | InsertTodo jsstring jsstring jsstring jsstring
  | UpdateTodo int jsstring jsstring jsstring jsstring
  | UpdateCompleted int bool "embedded list"
  | DeleteTodo int
  | InsertTodoLabels "(int \<times> jsstring) list"
  | DeleteTodoLabels int

text \<open>What a request makes the store read again from the related tables.\<close>

fun embeddedBy :: "remote_call \<Rightarrow> embedded list" where
  "embeddedBy SelectTodos = [EmbedAssignee, EmbedLabels]"
| "embeddedBy (UpdateCompleted ident v embeds) = embeds"
| "embeddedBy other = []"

datatype effect =
    Remote remote_call
  | Alert jsstring
  | ConsoleError jsstring PostgrestError

fun isRemote :: "effect \<Rightarrow> bool" where
  "isRemote (Remote c) = True"
| "isRemote (Alert m) = False"
| "isRemote (ConsoleError t e) = False"

fun isAlert :: "effect \<Rightarrow> bool" where
  "isAlert (Remote c) = False"
| "isAlert (Alert m) = True"
| "isAlert (ConsoleError t e) = False"

fun isConsoleError :: "effect \<Rightarrow> bool" where
  "isConsoleError (Remote c) = False"
| "isConsoleError (Alert m) = False"
| "isConsoleError (ConsoleError t e) = True"

fun isInsertLabel :: "effect \<Rightarrow> bool" where
  "isInsertLabel (Remote (InsertLabel n)) = True"
| "isInsertLabel other = False"

section \<open>Operations\<close>

subsection \<open>createNewLabel\<close>

definition createNewLabel ::
  "(jsstring \<Rightarrow> jsstring) \<Rightarrow> (jsstring \<Rightarrow> jsstring \<Rightarrow> int) \<Rightarrow> Label response \<Rightarrow>
     jsstring \<Rightarrow> state \<Rightarrow> jsstring option \<times> state \<times> effect list" where
  "createNewLabel lower cmp insertResp labelName s =
     (let trimmedName = trim labelName in
      if trimmedName = [] then (None, s, [])
      else
        case find (\<lambda>label. lower (label_name label) = lower trimmedName) (labels s) of
          Some existingLabel \<Rightarrow> (Some (label_id existingLabel), s, [])
        | None \<Rightarrow>
            (case insertResp of
               Failure err \<Rightarrow>
                 (None, s,
                  [Remote (InsertLabel trimmedName),
                   ConsoleError (js ''Error creating label:'') err,
                   Alert (js ''Failed to create new label: '' @ message err)])
             | Success row \<Rightarrow>
                 (Some (label_id row),
                  s\<lparr>labels := sortBy (\<lambda>a b. cmp (label_name a) (label_name b)) (labels s @ [row])\<rparr>,
                  [Remote (InsertLabel trimmedName)])))"

subsection \<open>fetchTodos and resetForm\<close>

text \<open>
  The embedded join rows are flattened to their labels, dropping the null ones; a todo
  without the embedded array gets the empty list.
\<close>

definition flattenLabels :: "FetchedTodo \<Rightarrow> Todo" where
  "flattenLabels row =
     (fetched row)\<lparr>todo_labels :=
        Some (case fetched_labels row of
                None \<Rightarrow> []
              | Some tls \<Rightarrow> List.map_filter tl_labels tls)\<rparr>"

definition fetchTodos :: "FetchedTodo list response \<Rightarrow> state \<Rightarrow> state \<times> effect list" where
  "fetchTodos fetchResp s =
     (case fetchResp of
        Failure err \<Rightarrow> (s, [Remote SelectTodos, ConsoleError (js ''Fetch error:'') err])
      | Success rows \<Rightarrow> (s\<lparr>todos := map flattenLabels rows\<rparr>, [Remote SelectTodos]))"

definition resetForm :: "state \<Rightarrow> state" where
  "resetForm s =
     s\<lparr>title := [], description := [], dueDate := [], assigneeId := [],
       selectedLabelIds := [], newLabelName := [], editingId := None\<rparr>"

subsection \<open>saveTodo\<close>

text \<open>
  \<open>editingId\<close> is a number or null and the source tests it for truthiness: null and 0
  both read as "no edit target".
\<close>

definition isEditing :: "int option \<Rightarrow> bool" where
  "isEditing e \<longleftrightarrow> e \<noteq> None \<and> e \<noteq> Some 0"

text \<open>What the store answers to the calls one \<open>saveTodo\<close> can make, in call order.\<close>

record saveResponses =
  todoResp :: "Todo list response"
  deleteLabelsResp :: "unit response"
  insertLabelsResp :: "unit response"
  fetchResp :: "FetchedTodo list response"

definition updateTodo :: "saveResponses \<Rightarrow> int \<Rightarrow> state \<Rightarrow> state \<times> effect list" where
  "updateTodo r target s =
     (case todoResp r of
        Failure todoError \<Rightarrow>
          (s, [Remote (UpdateTodo target (title s) (description s) (dueDate s) (assigneeId s)),
               ConsoleError (js ''Update error:'') todoError,
               Alert (message todoError)])
      | Success rows \<Rightarrow>
          (let relink =
                 (if selectedLabelIds s \<noteq> [] then
                    Remote (InsertTodoLabels (map (\<lambda>labelId. (target, labelId)) (selectedLabelIds s)))
                    # (case insertLabelsResp r of
                         Failure labelsError \<Rightarrow> [ConsoleError (js ''Labels update error:'') labelsError]
                       | Success u \<Rightarrow> [])
                  else []);
               (s', refresh) = fetchTodos (fetchResp r) (resetForm s)
           in (s', [Remote (UpdateTodo target (title s) (description s) (dueDate s) (assigneeId s)),
                    Remote (DeleteTodoLabels target)] @ relink @ refresh)))"

definition insertTodo :: "saveResponses \<Rightarrow> state \<Rightarrow> state \<times> effect list" where
  "insertTodo r s =
     (case todoResp r of
        Failure todoError \<Rightarrow>
          (s, [Remote (InsertTodo (title s) (description s) (dueDate s) (assigneeId s)),
               ConsoleError (js ''Insert error:'') todoError,
               Alert (message todoError)])
      | Success todoData \<Rightarrow>
          (let link =
                 (case todoData of
                    [] \<Rightarrow> []
                  | created # rest \<Rightarrow>
                      if selectedLabelIds s \<noteq> [] then
                        Remote (InsertTodoLabels
                                  (map (\<lambda>labelId. (todo_id created, labelId)) (selectedLabelIds s)))
                        # (case insertLabelsResp r of
                             Failure labelsError \<Rightarrow> [ConsoleError (js ''Labels insert error:'') labelsError]
                           | Success u \<Rightarrow> [])
                      else []);
               (s', refresh) = fetchTodos (fetchResp r) (resetForm s)
           in (s', Remote (InsertTodo (title s) (description s) (dueDate s) (assigneeId s))
                   # link @ refresh)))"

definition saveTodo :: "saveResponses \<Rightarrow> state \<Rightarrow> state \<times> effect list" where
  "saveTodo r s =
     (if trim (title s) = [] then (s, [Alert (js ''Title is required'')])
      else if assigneeId s = [] then (s, [Alert (js ''Assignee is required'')])
      else if selectedLabelIds s = [] then (s, [Alert (js ''At least one label is required'')])
      else if isEditing (editingId s) then updateTodo r (the (editingId s)) s
      else insertTodo r s)"

subsection \<open>toggleTodo and deleteTodo\<close>

text \<open>
  The update asks for the changed rows back, each with its assignee embedded
  (\<open>.select("*, assignee:profiles(id, name)")\<close>); on success that array is truthy
  whatever it holds, and only its presence is used.
\<close>

definition toggleTodo :: "Todo list response \<Rightarrow> int \<Rightarrow> bool \<Rightarrow> state \<Rightarrow> state \<times> effect list" where
  "toggleTodo resp ident wasCompleted s =
     (case resp of
        Failure err \<Rightarrow>
          (s, [Remote (UpdateCompleted ident (\<not> wasCompleted) [EmbedAssignee]),
               ConsoleError (js ''Toggle error:'') err])
      | Success rows \<Rightarrow>
          (s\<lparr>todos := map (\<lambda>t. if todo_id t = ident then t\<lparr>completed := \<not> wasCompleted\<rparr> else t)
                          (todos s)\<rparr>,
           [Remote (UpdateCompleted ident (\<not> wasCompleted) [EmbedAssignee])]))"

text \<open>The checkbox of a listed todo calls \<open>toggleTodo(todo.id, todo.completed)\<close>.\<close>

definition toggleCompleted :: "Todo list response \<Rightarrow> Todo \<Rightarrow> state \<Rightarrow> state \<times> effect list" where
  "toggleCompleted resp todo s = toggleTodo resp (todo_id todo) (completed todo) s"

text \<open>The answer to the join-row delete is awaited and dropped.\<close>

definition deleteTodo ::
  "unit response \<Rightarrow> unit response \<Rightarrow> int \<Rightarrow> state \<Rightarrow> state \<times> effect list" where
  "deleteTodo labelsResp todoDelResp ident s =
     (case todoDelResp of
        Failure err \<Rightarrow>
          (s, [Remote (DeleteTodoLabels ident), Remote (DeleteTodo ident),
               ConsoleError (js ''Delete error:'') err])
      | Success u \<Rightarrow>
          (s\<lparr>todos := filter (\<lambda>t. todo_id t \<noteq> ident) (todos s)\<rparr>,
           [Remote (DeleteTodoLabels ident), Remote (DeleteTodo ident)]))"

subsection \<open>Derived views\<close>

definition assignedIds :: "state \<Rightarrow> jsstring list" where
  "assignedIds s =
     map assignee_id
       (filter (\<lambda>t. \<not> isEditing (editingId s) \<or> Some (todo_id t) \<noteq> editingId s) (todos s))"

definition availableUsers :: "state \<Rightarrow> Profile list" where
  "availableUsers s =
     filter (\<lambda>u. profile_id u \<notin> set (assignedIds s) \<or> profile_id u = assigneeId s) (users s)"

definition filteredTodos :: "state \<Rightarrow> Todo list" where
  "filteredTodos s =
     filter (\<lambda>todo.
        let matchesAssignee = (filterUserId s = [] \<or> assignee_id todo = filterUserId s);
            matchesLabels =
              (filterLabelIds s = [] \<or>
               list_all (\<lambda>filterLabelId.
                  case todo_labels todo of
                    None \<Rightarrow> False
                  | Some ls \<Rightarrow> list_ex (\<lambda>label. label_id label = filterLabelId) ls)
                 (filterLabelIds s))
        in matchesAssignee \<and> matchesLabels) (todos s)"

section \<open>Example data\<close>

text \<open>The initial values of the \<open>useState\<close> cells.\<close>

definition initialState :: state where
  "initialState =
     \<lparr>todos = [], users = [], labels = [], title = [], description = [], dueDate = [],
      assigneeId = [], selectedLabelIds = [], newLabelName = [], editingId = None,
      filterUserId = [], filterLabelIds = [], isLabelDropdownOpen = False,
      isFilterLabelDropdownOpen = False\<rparr>"

definition alice :: Profile where
  "alice = \<lparr>profile_id = js ''u1'', profile_name = js ''Alice''\<rparr>"

definition bob :: Profile where
  "bob = \<lparr>profile_id = js ''u2'', profile_name = js ''Bob''\<rparr>"

definition urgent :: Label where
  "urgent = \<lparr>label_id = js ''l1'', label_name = js ''urgent'', created_at = None\<rparr>"

definition home :: Label where
  "home = \<lparr>label_id = js ''l2'', label_name = js ''home'', created_at = None\<rparr>"

definition payRent :: Todo where
  "payRent =
     \<lparr>todo_id = 5, todo_title = js ''Pay rent'', todo_description = None, due_date = None,
      completed = False, assignee_id = js ''u1'', assignee = Some alice,
      todo_labels = Some [urgent]\<rparr>"

definition walkDog :: Todo where
  "walkDog =
     \<lparr>todo_id = 3, todo_title = js ''Walk dog'', todo_description = None, due_date = None,
      completed = False, assignee_id = js ''u2'', assignee = Some bob,
      todo_labels = Some [urgent, home]\<rparr>"

text \<open>A loaded list: two todos, newest first, each with its own assignee.\<close>

definition loadedState :: state where
  "loadedState = initialState\<lparr>todos := [payRent, walkDog], users := [alice, bob],
                              labels := [home, urgent]\<rparr>"

definition timeout :: PostgrestError where
  "timeout = PostgrestError (js ''timeout'')"

text \<open>A label the store creates, and a second store error.\<close>

definition bug :: Label where
  "bug = \<lparr>label_id = js ''l3'', label_name = js ''Bug'', created_at = Some (js ''2024-05-01'')\<rparr>"

definition offline :: PostgrestError where
  "offline = PostgrestError (js ''offline'')"

text \<open>
  The form while todo 5 is edited: a new title and both labels selected; and the row
  the store then returns for it.
\<close>

definition editingRent :: state where
  "editingRent = loadedState\<lparr>title := js ''Pay rent now'', assigneeId := js ''u1'',
                               selectedLabelIds := [js ''l1'', js ''l2''], editingId := Some 5\<rparr>"

definition fetchedRent :: FetchedTodo where
  "fetchedRent =
     \<lparr>fetched = payRent\<lparr>todo_title := js ''Pay rent now'', todo_labels := None\<rparr>,
      fetched_labels = Some [\<lparr>tl_label_id = js ''l1'', tl_labels = Some urgent\<rparr>,
                             \<lparr>tl_label_id = js ''l2'', tl_labels = Some home\<rparr>]\<rparr>"

lemmas example_defs =
  initialState_def alice_def bob_def urgent_def home_def payRent_def walkDog_def
  loadedState_def timeout_def js_def

section \<open>Properties\<close>

lemma all_dropWhile: "(\<forall>x \<in> set (dropWhile P xs). P x) \<longleftrightarrow> (\<forall>x \<in> set xs. P x)"
  by (induction xs) auto

lemma trim_empty_iff: "trim str = [] \<longleftrightarrow> (\<forall>c \<in> set str. isWhiteSpace c)"
  by (simp add: trim_def all_dropWhile)

subsection \<open>Validation in saveTodo\<close>

text \<open>
  Claim C1. When the trimmed title is empty, or no assignee is selected, or no label is
  selected, \<open>saveTodo\<close> does exactly one thing: it shows one alert (the message of
  the first failing check). Its effect list holds no remote call, whatever the store
  would have answered, and the state it returns is the state it was given, so the todo
  list, the user list and the label list are untouched.
\<close>

theorem saveTodo_rejects_invalid:
  assumes "trim (title s) = [] \<or> assigneeId s = [] \<or> selectedLabelIds s = []"
  shows "saveTodo r s =
           (s, [Alert (if trim (title s) = [] then js ''Title is required''
                       else if assigneeId s = [] then js ''Assignee is required''
                       else js ''At least one label is required'')])"
  using assms by (auto simp: saveTodo_def)

lemma trim_buy_milk: "trim (js ''Buy milk'') = js ''Buy milk''"
  by (simp add: js_def trim_def isWhiteSpace_def)

text \<open>The scenario "Buy milk" for Alice with no label selected.\<close>

theorem saveTodo_rejects_invalid_witness:
  "selectedLabelIds (initialState\<lparr>title := js ''Buy milk'', assigneeId := js ''u1''\<rparr>) = []
   \<and> saveTodo \<lparr>todoResp = Success [], deleteLabelsResp = Success (),
                insertLabelsResp = Success (), fetchResp = Success []\<rparr>
        (initialState\<lparr>title := js ''Buy milk'', assigneeId := js ''u1''\<rparr>) =
       (initialState\<lparr>title := js ''Buy milk'', assigneeId := js ''u1''\<rparr>,
        [Alert (js ''At least one label is required'')])"
  using saveTodo_rejects_invalid
          [of "initialState\<lparr>title := js ''Buy milk'', assigneeId := js ''u1''\<rparr>"
              "\<lparr>todoResp = Success [], deleteLabelsResp = Success (),
                insertLabelsResp = Success (), fetchResp = Success []\<rparr>"]
  by (simp add: initialState_def trim_buy_milk) (simp add: js_def)

subsection \<open>The filtered view\<close>

text \<open>
  Claim C2. \<open>filteredTodos\<close> is the todo list, in its order, restricted to the todos
  whose assignee equals the assignee filter (or the filter is unset, the empty string)
  and whose label identifiers include every selected filter label: a superset test, so
  the label filters combine with AND. With an assignee filter and no label filter it is
  exactly the todos of that assignee. It is a function of the state alone: it returns a
  list and has no effect list and no state result.
\<close>

theorem filteredTodos_exact:
  "filteredTodos s =
     filter (\<lambda>t. (filterUserId s = [] \<or> assignee_id t = filterUserId s) \<and>
                 set (filterLabelIds s) \<subseteq>
                   label_id ` set (case todo_labels t of None \<Rightarrow> [] | Some ls \<Rightarrow> ls))
       (todos s)
   \<and> (filterUserId s \<noteq> [] \<and> filterLabelIds s = [] \<longrightarrow>
        filteredTodos s = filter (\<lambda>t. assignee_id t = filterUserId s) (todos s))"
proof -
  have "list_all (\<lambda>fl. case todo_labels t of None \<Rightarrow> False
                       | Some ls \<Rightarrow> list_ex (\<lambda>label. label_id label = fl) ls) fls
        \<longleftrightarrow> set fls \<subseteq> label_id ` set (case todo_labels t of None \<Rightarrow> [] | Some ls \<Rightarrow> ls)"
    for t :: Todo and fls
    by (cases "todo_labels t") (auto simp: list_all_iff list_ex_iff)
  then show ?thesis
    by (auto simp: filteredTodos_def Let_def intro!: filter_cong)
qed

text \<open>
  Filtering on both labels keeps only the todo that carries both; filtering on Alice
  keeps only hers.
\<close>

theorem filteredTodos_exact_witness:
  "filteredTodos (loadedState\<lparr>filterLabelIds := [js ''l1'', js ''l2'']\<rparr>) = [walkDog]
   \<and> filterUserId (loadedState\<lparr>filterUserId := js ''u1''\<rparr>) \<noteq> []
   \<and> filterLabelIds (loadedState\<lparr>filterUserId := js ''u1''\<rparr>) = []
   \<and> filteredTodos (loadedState\<lparr>filterUserId := js ''u1''\<rparr>) = [payRent]"
proof -
  let ?byLabels = "loadedState\<lparr>filterLabelIds := [js ''l1'', js ''l2'']\<rparr>"
  let ?byUser = "loadedState\<lparr>filterUserId := js ''u1''\<rparr>"
  have labels: "filteredTodos ?byLabels = [walkDog]"
    by (simp add: filteredTodos_def example_defs)
  have hyp: "filterUserId ?byUser \<noteq> [] \<and> filterLabelIds ?byUser = []"
    by (simp add: example_defs)
  with filteredTodos_exact [of ?byUser]
  have "filteredTodos ?byUser = filter (\<lambda>t. assignee_id t = filterUserId ?byUser) (todos ?byUser)"
    by blast
  also have "\<dots> = [payRent]"
    by (simp add: example_defs)
  finally show ?thesis using labels hyp by simp
qed

subsection \<open>Toggling completion\<close>

lemma toggleTodo_success:
  "toggleTodo (Success rows) ident c s =
     (s\<lparr>todos := map (\<lambda>t. if todo_id t = ident then t\<lparr>completed := \<not> c\<rparr> else t) (todos s)\<rparr>,
      [Remote (UpdateCompleted ident (\<not> c) [EmbedAssignee])])"
  by (simp add: toggleTodo_def)

text \<open>
  Claim C4. Take the todo at any position of the local list and toggle it twice, the
  second time from the list as the first toggle left it, both updates succeeding. After
  the first toggle the todo is the original with its flag negated; after the second it
  is the original again, so its completed flag is back to its first value. The two
  effect lists together are exactly two remote updates of that identifier.
\<close>

theorem toggleCompleted_twice:
  assumes "i < length (todos s)"
  shows "let t = todos s ! i;
             (s1, effs1) = toggleCompleted (Success rows1) t s;
             t1 = todos s1 ! i;
             (s2, effs2) = toggleCompleted (Success rows2) t1 s1
         in t1 = t\<lparr>completed := \<not> completed t\<rparr>
            \<and> todos s2 ! i = t
            \<and> completed (todos s2 ! i) = completed t
            \<and> effs1 @ effs2 =
                [Remote (UpdateCompleted (todo_id t) (\<not> completed t) [EmbedAssignee]),
                 Remote (UpdateCompleted (todo_id t) (completed t) [EmbedAssignee])]"
  using assms by (simp add: toggleCompleted_def toggleTodo_success Let_def)

theorem toggleCompleted_twice_witness:
  "0 < length (todos loadedState)
   \<and> fst (toggleCompleted (Success []) payRent loadedState) =
       loadedState\<lparr>todos := [payRent\<lparr>completed := True\<rparr>, walkDog]\<rparr>
   \<and> toggleCompleted (Success []) (payRent\<lparr>completed := True\<rparr>)
        (loadedState\<lparr>todos := [payRent\<lparr>completed := True\<rparr>, walkDog]\<rparr>) =
       (loadedState, [Remote (UpdateCompleted 5 False [EmbedAssignee])])"
  using toggleCompleted_twice [of 0 loadedState "[]" "[]"]
  by (simp add: example_defs toggleCompleted_def toggleTodo_success)

text \<open>
  Claim C5, as stated, fails on "no refetch of assignee data": toggling the todo 3 sends
  one update whose select clause embeds the assignee, so the store reads the assignee's
  profile again on every toggle.
\<close>

theorem toggleCompleted_counterexample:
  "toggleCompleted (Success []) walkDog loadedState =
     (loadedState\<lparr>todos := [payRent, walkDog\<lparr>completed := True\<rparr>]\<rparr>,
      [Remote (UpdateCompleted 3 True [EmbedAssignee])])
   \<and> embeddedBy (UpdateCompleted 3 True [EmbedAssignee]) = [EmbedAssignee]"
  by (simp add: example_defs toggleCompleted_def toggleTodo_success)

text \<open>
  Claim C5, amended. A successful toggle of a todo of the local list issues one remote
  call, the update of the completed column filtered on that todo's identifier. That
  update asks for the changed rows with the assignee embedded, and for no join rows; no
  fetch of the todo list is issued. The returned rows never reach the local state: the
  resulting state is the same for every returned array. Locally the list keeps its
  length and order; at every position the identifier, title, description, due date,
  assignee and labels are as before; a todo with another identifier is unchanged; a
  todo with the toggled identifier differs from its old value in the completed field
  only. Nothing else in the state changes.
\<close>

theorem toggleCompleted_frame_amended:
  assumes "t \<in> set (todos s)"
  shows "toggleCompleted (Success rows) t s =
           (s\<lparr>todos := todos (fst (toggleCompleted (Success rows) t s))\<rparr>,
            [Remote (UpdateCompleted (todo_id t) (\<not> completed t) [EmbedAssignee])])
         \<and> concat (map embeddedBy
                      [c. Remote c \<leftarrow> snd (toggleCompleted (Success rows) t s)]) =
             [EmbedAssignee]
         \<and> fst (toggleCompleted (Success otherRows) t s) =
             fst (toggleCompleted (Success rows) t s)
         \<and> length (todos (fst (toggleCompleted (Success rows) t s))) = length (todos s)
         \<and> (\<forall>i < length (todos s).
              let before = todos s ! i;
                  after = todos (fst (toggleCompleted (Success rows) t s)) ! i
              in todo_id after = todo_id before
                 \<and> todo_title after = todo_title before
                 \<and> todo_description after = todo_description before
                 \<and> due_date after = due_date before
                 \<and> assignee_id after = assignee_id before
                 \<and> assignee after = assignee before
                 \<and> todo_labels after = todo_labels before
                 \<and> (todo_id before \<noteq> todo_id t \<longrightarrow> after = before)
                 \<and> (todo_id before = todo_id t \<longrightarrow> after = before\<lparr>completed := \<not> completed t\<rparr>))"
  by (simp add: toggleCompleted_def toggleTodo_success Let_def)

text \<open>
  Toggling the second todo, the store answering with the changed row and Bob's profile:
  the local entry keeps the assignee it had.
\<close>

theorem toggleCompleted_frame_amended_witness:
  "walkDog \<in> set (todos loadedState)
   \<and> toggleCompleted
        (Success [walkDog\<lparr>completed := True,
                          assignee := Some \<lparr>profile_id = js ''u2'', profile_name = js ''Robert''\<rparr>,
                          todo_labels := None\<rparr>])
        walkDog loadedState =
       (loadedState\<lparr>todos := [payRent, walkDog\<lparr>completed := True\<rparr>]\<rparr>,
        [Remote (UpdateCompleted 3 True [EmbedAssignee])])"
  using toggleCompleted_frame_amended
          [of walkDog loadedState
              "[walkDog\<lparr>completed := True,
                        assignee := Some \<lparr>profile_id = js ''u2'', profile_name = js ''Robert''\<rparr>,
                        todo_labels := None\<rparr>]"]
  by (simp add: example_defs toggleCompleted_def toggleTodo_success)

subsection \<open>Deleting a todo\<close>

text \<open>
  Claim C7. \<open>deleteTodo\<close> always issues two remote deletes, the join rows of the
  identifier first and the todo row second. The answer to the join-row delete changes
  nothing: the result is the same for any two answers. No alert is shown. When the todo-row
  delete succeeds, the todos with that identifier leave the local list and nothing is
  logged; when it fails, the state is returned as it was.
\<close>

theorem deleteTodo_order:
  "deleteTodo labelsResp todoDelResp ident s = deleteTodo labelsResp' todoDelResp ident s
   \<and> filter isRemote (snd (deleteTodo labelsResp todoDelResp ident s)) =
       [Remote (DeleteTodoLabels ident), Remote (DeleteTodo ident)]
   \<and> filter isAlert (snd (deleteTodo labelsResp todoDelResp ident s)) = []
   \<and> (\<forall>u. todoDelResp = Success u \<longrightarrow>
         deleteTodo labelsResp todoDelResp ident s =
           (s\<lparr>todos := filter (\<lambda>t. todo_id t \<noteq> ident) (todos s)\<rparr>,
            [Remote (DeleteTodoLabels ident), Remote (DeleteTodo ident)]))
   \<and> (\<forall>err. todoDelResp = Failure err \<longrightarrow>
         fst (deleteTodo labelsResp todoDelResp ident s) = s)"
  by (cases todoDelResp) (simp_all add: deleteTodo_def)

theorem deleteTodo_order_witness:
  "deleteTodo (Failure timeout) (Success ()) 5 loadedState =
     (loadedState\<lparr>todos := [walkDog]\<rparr>, [Remote (DeleteTodoLabels 5), Remote (DeleteTodo 5)])
   \<and> fst (deleteTodo (Success ()) (Failure timeout) 5 loadedState) = loadedState"
  using deleteTodo_order [of "Failure timeout" "Success ()" 5 loadedState "Failure timeout"]
        deleteTodo_order [of "Success ()" "Failure timeout" 5 loadedState "Success ()"]
  by (simp add: example_defs)

subsection \<open>Available assignees\<close>

text \<open>
  Claim C9. A user of the user list whose identifier equals the form's selected assignee
  is always among the available users, whatever todos that user is assigned to.
\<close>

theorem availableUsers_keeps_selected:
  "u \<in> set (users s) \<Longrightarrow> profile_id u = assigneeId s \<Longrightarrow> u \<in> set (availableUsers s)"
  by (simp add: availableUsers_def)

text \<open>Bob holds a todo that is not being edited and is still offered once selected.\<close>

theorem availableUsers_keeps_selected_witness:
  "bob \<in> set (users (loadedState\<lparr>assigneeId := js ''u2''\<rparr>))
   \<and> profile_id bob = assigneeId (loadedState\<lparr>assigneeId := js ''u2''\<rparr>)
   \<and> bob \<in> set (availableUsers (loadedState\<lparr>assigneeId := js ''u2''\<rparr>))"
  using availableUsers_keeps_selected [of bob "loadedState\<lparr>assigneeId := js ''u2''\<rparr>"]
  by (simp add: example_defs)

text \<open>
  Claim C8, as stated, fails: with nothing being edited, Alice is assigned to a todo of
  the list, yet selecting her in the form makes her the one available user.
\<close>

theorem availableUsers_counterexample:
  "editingId (loadedState\<lparr>assigneeId := js ''u1''\<rparr>) = None
   \<and> todos (loadedState\<lparr>assigneeId := js ''u1''\<rparr>) = [payRent, walkDog]
   \<and> assignee_id payRent = profile_id alice
   \<and> availableUsers (loadedState\<lparr>assigneeId := js ''u1''\<rparr>) = [alice]"
  by (simp add: example_defs availableUsers_def assignedIds_def isEditing_def)

text \<open>
  Claim C8, amended. \<open>availableUsers\<close> is the user list, in its order, restricted to
  the users who either are assigned to no todo other than the one being edited, or are
  the form's selected assignee. (An edit target 0 reads as no edit target and is left
  aside.) It is a function of the state alone.
\<close>

theorem availableUsers_amended:
  assumes "editingId s \<noteq> Some 0"
  shows "availableUsers s =
     filter (\<lambda>u. (\<forall>t \<in> set (todos s). assignee_id t = profile_id u \<longrightarrow> Some (todo_id t) = editingId s)
                 \<or> profile_id u = assigneeId s) (users s)"
proof -
  have "x \<in> set (assignedIds s) \<longleftrightarrow>
          (\<exists>t \<in> set (todos s). assignee_id t = x \<and> Some (todo_id t) \<noteq> editingId s)" for x
    using assms by (cases "editingId s") (auto simp: assignedIds_def isEditing_def)
  then show ?thesis
    unfolding availableUsers_def by (intro filter_cong refl) blast
qed

text \<open>While Alice's todo 5 is edited she is available again; Bob is not.\<close>

theorem availableUsers_amended_witness:
  "editingId (loadedState\<lparr>editingId := Some 5\<rparr>) \<noteq> Some 0
   \<and> availableUsers (loadedState\<lparr>editingId := Some 5\<rparr>) = [alice]"
  using availableUsers_amended [of "loadedState\<lparr>editingId := Some 5\<rparr>"]
  by (simp add: example_defs)

subsection \<open>Creating a label\<close>

text \<open>
  Claim C10. A name that trims to the empty string makes \<open>createNewLabel\<close> return
  null with no effect at all: no remote call, no alert, no log, and the state (so the
  label cache) as it was. This holds for every case mapping, comparator and store
  response.
\<close>

theorem createNewLabel_blank:
  "trim labelName = [] \<Longrightarrow> createNewLabel lower cmp insertResp labelName s = (None, s, [])"
  by (simp add: createNewLabel_def)

theorem createNewLabel_blank_witness:
  "trim (js ''   '') = []
   \<and> createNewLabel toLowerCase codeUnitCompare (Failure timeout) (js ''   '') loadedState =
       (None, loadedState, [])"
  using createNewLabel_blank [of "js ''   ''" toLowerCase codeUnitCompare "Failure timeout" loadedState]
  by (simp add: js_def trim_def isWhiteSpace_def)

text \<open>Sorting keeps the elements and, for a consistent comparator, orders them.\<close>

lemma mset_insertSorted: "mset (insertSorted cmp x xs) = add_mset x (mset xs)"
  by (induction xs) auto

lemma mset_sortBy: "mset (sortBy cmp xs) = mset xs"
  unfolding sortBy_def by (induction xs) (auto simp: mset_insertSorted)

lemma set_sortBy: "set (sortBy cmp xs) = set xs"
  by (metis mset_sortBy set_mset_mset)

lemma set_insertSorted: "set (insertSorted cmp x xs) = insert x (set xs)"
  by (metis mset_insertSorted set_mset_add_mset_insert set_mset_mset)

lemma sorted_insertSorted:
  assumes "consistentComparator cmp" and "sorted_wrt (\<lambda>a b. cmp a b \<le> 0) xs"
  shows "sorted_wrt (\<lambda>a b. cmp a b \<le> 0) (insertSorted cmp x xs)"
  using assms(2)
proof (induction xs)
  case Nil
  then show ?case by simp
next
  case (Cons y ys)
  have tot: "cmp a b \<le> 0 \<or> cmp b a \<le> 0" for a b
    using assms(1) by (simp add: consistentComparator_def)
  have tr: "cmp a b \<le> 0 \<Longrightarrow> cmp b c \<le> 0 \<Longrightarrow> cmp a c \<le> 0" for a b c
    using assms(1) unfolding consistentComparator_def by blast
  from Cons.prems have ys: "sorted_wrt (\<lambda>a b. cmp a b \<le> 0) ys"
    and y: "\<forall>z \<in> set ys. cmp y z \<le> 0" by simp_all
  show ?case
  proof (cases "cmp x y \<le> 0")
    case True
    have "\<forall>z \<in> set ys. cmp x z \<le> 0"
      using y tr [OF True] by blast
    with True ys y show ?thesis by simp
  next
    case False
    then have "cmp y x \<le> 0" using tot by blast
    with False y Cons.IH [OF ys] show ?thesis by (simp add: set_insertSorted)
  qed
qed

lemma sorted_sortBy:
  "consistentComparator cmp \<Longrightarrow> sorted_wrt (\<lambda>a b. cmp a b \<le> 0) (sortBy cmp xs)"
  unfolding sortBy_def by (induction xs) (simp_all add: sorted_insertSorted)

lemma consistent_on_names:
  "consistentComparator cmp \<Longrightarrow> consistentComparator (\<lambda>a b. cmp (label_name a) (label_name b))"
  unfolding consistentComparator_def by blast

lemma find_only:
  "x \<in> set xs \<Longrightarrow> P x \<Longrightarrow> (\<forall>y \<in> set xs. P y \<longrightarrow> y = x) \<Longrightarrow> find P xs = Some x"
proof (induction xs)
  case Nil
  then show ?case by simp
next
  case (Cons a as)
  show ?case
  proof (cases "P a")
    case True
    with Cons.prems(3) have "a = x" by simp
    with True show ?thesis by simp
  next
    case False
    with Cons.prems(1,2) have "x \<in> set as" by auto
    moreover from Cons.prems(3) have "\<forall>y \<in> set as. P y \<longrightarrow> y = x" by simp
    ultimately have "find P as = Some x" using Cons.IH Cons.prems(2) by blast
    with False show ?thesis by simp
  qed
qed

lemma consistent_codeUnitCompare: "consistentComparator codeUnitCompare"
  unfolding consistentComparator_def codeUnitCompare_def
  by (auto split: if_splits)

lemma createNewLabel_existing:
  assumes "trim n \<noteq> []"
    and "find (\<lambda>l. lower (label_name l) = lower (trim n)) (labels s) = Some existing"
  shows "createNewLabel lower cmp resp n s = (Some (label_id existing), s, [])"
  using assms by (simp add: createNewLabel_def)

lemma createNewLabel_inserted:
  assumes "trim n \<noteq> []"
    and "find (\<lambda>l. lower (label_name l) = lower (trim n)) (labels s) = None"
  shows "createNewLabel lower cmp (Success row) n s =
           (Some (label_id row),
            s\<lparr>labels := sortBy (\<lambda>a b. cmp (label_name a) (label_name b)) (labels s @ [row])\<rparr>,
            [Remote (InsertLabel (trim n))])"
  using assms by (simp add: createNewLabel_def)

lemma createNewLabel_failed:
  assumes "trim n \<noteq> []"
    and "find (\<lambda>l. lower (label_name l) = lower (trim n)) (labels s) = None"
  shows "createNewLabel lower cmp (Failure err) n s =
           (None, s,
            [Remote (InsertLabel (trim n)), ConsoleError (js ''Error creating label:'') err,
             Alert (js ''Failed to create new label: '' @ message err)])"
  using assms by (simp add: createNewLabel_def)

lemma createNewLabel_second:
  assumes same: "lower (trim n1) = lower (trim n2)"
    and blank: "trim n1 = [] \<longleftrightarrow> trim n2 = []"
    and named: "label_name row = trim n1"
    and first: "createNewLabel lower cmp (Success row) n1 s = (res1, s1, effs1)"
  shows "createNewLabel lower cmp resp2 n2 s1 = (res1, s1, [])"
    and "length (filter isInsertLabel effs1) \<le> 1"
proof -
  let ?P = "\<lambda>l. lower (label_name l) = lower (trim n1)"
  have both: "createNewLabel lower cmp resp2 n2 s1 = (res1, s1, []) \<and>
              length (filter isInsertLabel effs1) \<le> 1"
  proof (cases "trim n1 = []")
    case True
    with blank first show ?thesis by (auto simp: createNewLabel_def)
  next
    case False
    then have n2: "trim n2 \<noteq> []" using blank by simp
    show ?thesis
    proof (cases "find ?P (labels s)")
      case (Some existing)
      from createNewLabel_existing [OF False Some] first
      have r: "res1 = Some (label_id existing)" "s1 = s" "effs1 = []" by simp_all
      from Some same have "find (\<lambda>l. lower (label_name l) = lower (trim n2)) (labels s) = Some existing"
        by simp
      from createNewLabel_existing [OF n2 this] r show ?thesis by simp
    next
      case None
      from createNewLabel_inserted [OF False None] first
      have r: "res1 = Some (label_id row)"
        "s1 = s\<lparr>labels := sortBy (\<lambda>a b. cmp (label_name a) (label_name b)) (labels s @ [row])\<rparr>"
        "effs1 = [Remote (InsertLabel (trim n1))]" by simp_all
      have no: "\<forall>y \<in> set (labels s). \<not> ?P y"
        using None by (simp add: find_None_iff)
      have "find ?P (labels s1) = Some row"
        by (rule find_only) (use no named r(2) in \<open>auto simp: set_sortBy\<close>)
      then have "find (\<lambda>l. lower (label_name l) = lower (trim n2)) (labels s1) = Some row"
        using same by simp
      from createNewLabel_existing [OF n2 this] r show ?thesis by simp
    qed
  qed
  from both show "createNewLabel lower cmp resp2 n2 s1 = (res1, s1, [])" by simp
  from both show "length (filter isInsertLabel effs1) \<le> 1" by simp
qed

text \<open>
  Claim C3, as stated, fails when the store rejects the first insert: with an empty
  cache, "Bug" is sent, rejected and answered with null after an alert; "bug" is then
  sent again and accepted. Two remote inserts are issued and the two calls return
  different results.
\<close>

theorem createNewLabel_counterexample:
  "createNewLabel toLowerCase codeUnitCompare (Failure timeout) (js ''Bug'') initialState =
     (None, initialState,
      [Remote (InsertLabel (js ''Bug'')), ConsoleError (js ''Error creating label:'') timeout,
       Alert (js ''Failed to create new label: timeout'')])
   \<and> createNewLabel toLowerCase codeUnitCompare
        (Success \<lparr>label_id = js ''l3'', label_name = js ''bug'', created_at = None\<rparr>) (js ''bug'')
        initialState =
     (Some (js ''l3''),
      initialState\<lparr>labels := [\<lparr>label_id = js ''l3'', label_name = js ''bug'', created_at = None\<rparr>]\<rparr>,
      [Remote (InsertLabel (js ''bug''))])
   \<and> toLowerCase (js ''Bug'') = toLowerCase (js ''bug'')"
  by (simp add: createNewLabel_def Let_def trim_def isWhiteSpace_def toLowerCase_def
        toLowerCaseUnit_def js_def initialState_def sortBy_def timeout_def)

text \<open>
  Claim C3, amended. For a name whose trimmed form is not empty: if the cache holds a
  label whose lower-cased name equals the lower-cased trimmed name, the identifier of
  the first such label is returned with no effect and the state unchanged. Otherwise one
  remote insert of the trimmed name is issued; when it succeeds the returned row's
  identifier is the result and the cache becomes the old labels plus that row, sorted
  by name under the comparator (ascending whenever the comparator is consistent); when
  it fails the result is null, the error is logged and alerted, and the state is
  unchanged. When the first call's insert succeeds (or is not needed) and the store
  returns the row under the name it was given, a second call with a name that differs
  only in letter case returns the same result with no effect at all, so both calls
  together issue at most one remote insert.
\<close>

theorem createNewLabel_amended:
  "(trim n \<noteq> [] \<and> find (\<lambda>l. lower (label_name l) = lower (trim n)) (labels s) = Some existing \<longrightarrow>
      createNewLabel lower cmp resp n s = (Some (label_id existing), s, []))
   \<and> (trim n \<noteq> [] \<and> find (\<lambda>l. lower (label_name l) = lower (trim n)) (labels s) = None \<longrightarrow>
        createNewLabel lower cmp (Success row) n s =
          (Some (label_id row),
           s\<lparr>labels := sortBy (\<lambda>a b. cmp (label_name a) (label_name b)) (labels s @ [row])\<rparr>,
           [Remote (InsertLabel (trim n))])
        \<and> mset (sortBy (\<lambda>a b. cmp (label_name a) (label_name b)) (labels s @ [row])) =
            add_mset row (mset (labels s))
        \<and> (consistentComparator cmp \<longrightarrow>
             sorted_wrt (\<lambda>a b. cmp (label_name a) (label_name b) \<le> 0)
               (sortBy (\<lambda>a b. cmp (label_name a) (label_name b)) (labels s @ [row])))
        \<and> createNewLabel lower cmp (Failure err) n s =
            (None, s,
             [Remote (InsertLabel (trim n)), ConsoleError (js ''Error creating label:'') err,
              Alert (js ''Failed to create new label: '' @ message err)]))
   \<and> (lower (trim n1) = lower (trim n2) \<and> (trim n1 = [] \<longleftrightarrow> trim n2 = []) \<and>
       label_name row = trim n1 \<longrightarrow>
        (let (res1, s1, effs1) = createNewLabel lower cmp (Success row) n1 s;
             (res2, s2, effs2) = createNewLabel lower cmp resp2 n2 s1
         in res2 = res1 \<and> s2 = s1 \<and> effs2 = [] \<and>
            length (filter isInsertLabel (effs1 @ effs2)) \<le> 1))"
proof (intro conjI impI)
  assume "trim n \<noteq> [] \<and> find (\<lambda>l. lower (label_name l) = lower (trim n)) (labels s) = Some existing"
  then show "createNewLabel lower cmp resp n s = (Some (label_id existing), s, [])"
    by (simp add: createNewLabel_existing)
next
  assume "trim n \<noteq> [] \<and> find (\<lambda>l. lower (label_name l) = lower (trim n)) (labels s) = None"
  then show "createNewLabel lower cmp (Success row) n s =
          (Some (label_id row),
           s\<lparr>labels := sortBy (\<lambda>a b. cmp (label_name a) (label_name b)) (labels s @ [row])\<rparr>,
           [Remote (InsertLabel (trim n))])"
    by (simp add: createNewLabel_inserted)
next
  show "mset (sortBy (\<lambda>a b. cmp (label_name a) (label_name b)) (labels s @ [row])) =
            add_mset row (mset (labels s))"
    by (simp add: mset_sortBy)
next
  assume "consistentComparator cmp"
  then show "sorted_wrt (\<lambda>a b. cmp (label_name a) (label_name b) \<le> 0)
               (sortBy (\<lambda>a b. cmp (label_name a) (label_name b)) (labels s @ [row]))"
    by (intro sorted_sortBy consistent_on_names)
next
  assume "trim n \<noteq> [] \<and> find (\<lambda>l. lower (label_name l) = lower (trim n)) (labels s) = None"
  then show "createNewLabel lower cmp (Failure err) n s =
            (None, s,
             [Remote (InsertLabel (trim n)), ConsoleError (js ''Error creating label:'') err,
              Alert (js ''Failed to create new label: '' @ message err)])"
    by (simp add: createNewLabel_failed)
next
  assume h: "lower (trim n1) = lower (trim n2) \<and> (trim n1 = [] \<longleftrightarrow> trim n2 = []) \<and>
       label_name row = trim n1"
  obtain res1 s1 effs1 where first: "createNewLabel lower cmp (Success row) n1 s = (res1, s1, effs1)"
    by (cases "createNewLabel lower cmp (Success row) n1 s") auto
  from h have a: "lower (trim n1) = lower (trim n2)" and b: "trim n1 = [] \<longleftrightarrow> trim n2 = []"
    and c: "label_name row = trim n1" by simp_all
  note second = createNewLabel_second [OF a b c first]
  show "let (res1, s1, effs1) = createNewLabel lower cmp (Success row) n1 s;
             (res2, s2, effs2) = createNewLabel lower cmp resp2 n2 s1
         in res2 = res1 \<and> s2 = s1 \<and> effs2 = [] \<and>
            length (filter isInsertLabel (effs1 @ effs2)) \<le> 1"
    using second by (simp add: first)
qed

lemma trim_examples:
  "trim (js ''URGENT'') = js ''URGENT''"
  "trim (js ''  Bug '') = js ''Bug''"
  "trim (js ''bUG'') = js ''bUG''"
  "trim (js ''Bug'') = js ''Bug''"
  "trim (js ''bug'') = js ''bug''"
  by (simp_all add: js_def trim_def isWhiteSpace_def)

lemma lower_examples:
  "toLowerCase (js ''URGENT'') = js ''urgent''"
  "toLowerCase (js ''Bug'') = js ''bug''"
  "toLowerCase (js ''bUG'') = js ''bug''"
  "toLowerCase (js ''bug'') = js ''bug''"
  "toLowerCase (js ''urgent'') = js ''urgent''"
  "toLowerCase (js ''home'') = js ''home''"
  by (simp_all add: js_def toLowerCase_def toLowerCaseUnit_def)

lemma find_urgent:
  "find (\<lambda>l. toLowerCase (label_name l) = toLowerCase (js ''URGENT'')) (labels loadedState) = Some urgent"
  by (simp add: loadedState_def initialState_def urgent_def home_def toLowerCase_def
        toLowerCaseUnit_def js_def)

lemma find_bug:
  "find (\<lambda>l. toLowerCase (label_name l) = toLowerCase (js ''Bug'')) (labels loadedState) = None"
  by (simp add: loadedState_def initialState_def urgent_def home_def toLowerCase_def
        toLowerCaseUnit_def js_def)

lemma sort_bug:
  "sortBy (\<lambda>a b. codeUnitCompare (label_name a) (label_name b)) (labels loadedState @ [bug])
     = [bug, home, urgent]"
  by (simp add: sortBy_def codeUnitCompare_def loadedState_def initialState_def urgent_def home_def bug_def js_def)

theorem createNewLabel_amended_witness:
  "trim (js ''URGENT'') \<noteq> []
   \<and> find (\<lambda>l. toLowerCase (label_name l) = toLowerCase (trim (js ''URGENT''))) (labels loadedState)
       = Some urgent
   \<and> createNewLabel toLowerCase codeUnitCompare (Failure timeout) (js ''URGENT'') loadedState =
       (Some (js ''l1''), loadedState, [])
   \<and> trim (js ''  Bug '') \<noteq> []
   \<and> find (\<lambda>l. toLowerCase (label_name l) = toLowerCase (trim (js ''  Bug ''))) (labels loadedState)
       = None
   \<and> consistentComparator codeUnitCompare
   \<and> createNewLabel toLowerCase codeUnitCompare (Success bug) (js ''  Bug '') loadedState =
       (Some (js ''l3''), loadedState\<lparr>labels := [bug, home, urgent]\<rparr>,
        [Remote (InsertLabel (js ''Bug''))])
   \<and> sorted_wrt (\<lambda>a b. codeUnitCompare (label_name a) (label_name b) \<le> 0) [bug, home, urgent]
   \<and> toLowerCase (trim (js ''  Bug '')) = toLowerCase (trim (js ''bUG''))
   \<and> label_name bug = trim (js ''  Bug '')
   \<and> createNewLabel toLowerCase codeUnitCompare (Failure timeout) (js ''bUG'')
        (loadedState\<lparr>labels := [bug, home, urgent]\<rparr>) =
       (Some (js ''l3''), loadedState\<lparr>labels := [bug, home, urgent]\<rparr>, [])"
proof -
  note thm1 = createNewLabel_amended
    [where n = "js ''URGENT''" and lower = toLowerCase and cmp = codeUnitCompare
       and s = loadedState and existing = urgent and resp = "Failure timeout"]
  note thm2 = createNewLabel_amended
    [where n = "js ''  Bug ''" and lower = toLowerCase and cmp = codeUnitCompare
       and s = loadedState and row = bug and ?n1.0 = "js ''  Bug ''" and ?n2.0 = "js ''bUG''"
       and ?resp2.0 = "Failure timeout"]
  have h1: "trim (js ''URGENT'') \<noteq> [] \<and>
            find (\<lambda>l. toLowerCase (label_name l) = toLowerCase (trim (js ''URGENT'')))
              (labels loadedState) = Some urgent"
    by (simp add: trim_examples find_urgent) (simp add: js_def)
  with thm1 have r1: "createNewLabel toLowerCase codeUnitCompare (Failure timeout) (js ''URGENT'')
                        loadedState = (Some (label_id urgent), loadedState, [])"
    by blast
  have h2: "trim (js ''  Bug '') \<noteq> [] \<and>
            find (\<lambda>l. toLowerCase (label_name l) = toLowerCase (trim (js ''  Bug '')))
              (labels loadedState) = None"
    by (simp add: trim_examples find_bug) (simp add: js_def)
  have h3: "consistentComparator codeUnitCompare"
    by (rule consistent_codeUnitCompare)
  have h4: "toLowerCase (trim (js ''  Bug '')) = toLowerCase (trim (js ''bUG'')) \<and>
            (trim (js ''  Bug '') = [] \<longleftrightarrow> trim (js ''bUG'') = []) \<and>
            label_name bug = trim (js ''  Bug '')"
    by (simp add: trim_examples lower_examples bug_def) (simp add: js_def)
  from thm2 h2 have r2: "createNewLabel toLowerCase codeUnitCompare (Success bug) (js ''  Bug '')
                           loadedState =
       (Some (label_id bug),
        loadedState\<lparr>labels := sortBy (\<lambda>a b. codeUnitCompare (label_name a) (label_name b))
                                  (labels loadedState @ [bug])\<rparr>,
        [Remote (InsertLabel (trim (js ''  Bug '')))])"
    by blast
  from thm2 h2 h3 have r3: "sorted_wrt (\<lambda>a b. codeUnitCompare (label_name a) (label_name b) \<le> 0)
       (sortBy (\<lambda>a b. codeUnitCompare (label_name a) (label_name b)) (labels loadedState @ [bug]))"
    by blast
  from thm2 h4 have "let (res1, s1, effs1) =
                           createNewLabel toLowerCase codeUnitCompare (Success bug) (js ''  Bug '') loadedState;
                         (res2, s2, effs2) =
                           createNewLabel toLowerCase codeUnitCompare (Failure timeout) (js ''bUG'') s1
                     in res2 = res1 \<and> s2 = s1 \<and> effs2 = [] \<and>
                        length (filter isInsertLabel (effs1 @ effs2)) \<le> 1"
    by blast
  then have r4: "createNewLabel toLowerCase codeUnitCompare (Failure timeout) (js ''bUG'')
                   (loadedState\<lparr>labels := [bug, home, urgent]\<rparr>) =
                 (Some (label_id bug), loadedState\<lparr>labels := [bug, home, urgent]\<rparr>, [])"
    by (simp add: r2 sort_bug split: prod.splits)
  from h1 h2 h3 h4 r1 r2 r3 r4 show ?thesis
    by (simp add: sort_bug trim_examples) (simp add: urgent_def bug_def)
qed


subsection \<open>Saving an edited todo\<close>

lemma saveTodo_update:
  assumes "trim (title s) \<noteq> []" "assigneeId s \<noteq> []" "selectedLabelIds s \<noteq> []"
    and "editingId s = Some target" "target \<noteq> 0"
  shows "saveTodo r s = updateTodo r target s"
  using assms by (simp add: saveTodo_def isEditing_def)

lemma updateTodo_success:
  assumes "todoResp r = Success rows" "selectedLabelIds s \<noteq> []"
  shows "updateTodo r target s =
     ((resetForm s)\<lparr>todos := (case fetchResp r of
                                 Failure err \<Rightarrow> todos s
                               | Success fetchedRows \<Rightarrow> map flattenLabels fetchedRows)\<rparr>,
      [Remote (UpdateTodo target (title s) (description s) (dueDate s) (assigneeId s)),
       Remote (DeleteTodoLabels target),
       Remote (InsertTodoLabels (map (\<lambda>labelId. (target, labelId)) (selectedLabelIds s)))]
      @ (case insertLabelsResp r of
           Failure labelsError \<Rightarrow> [ConsoleError (js ''Labels update error:'') labelsError]
         | Success u \<Rightarrow> [])
      @ Remote SelectTodos
        # (case fetchResp r of
             Failure err \<Rightarrow> [ConsoleError (js ''Fetch error:'') err]
           | Success fetchedRows \<Rightarrow> []))"
  using assms
  by (cases "fetchResp r"; cases "insertLabelsResp r")
     (simp_all add: updateTodo_def fetchTodos_def resetForm_def)

lemma trim_pay_rent_now: "trim (js ''Pay rent now'') = js ''Pay rent now''"
  by (simp add: js_def trim_def isWhiteSpace_def)


text \<open>
  Claim C6, as stated, fails. Todo 5 is saved under a new title; the todo row is
  updated, the join-row delete fails and the refresh fails. The only log entry is the
  one of the refresh, nothing records the failed delete, and the local todo 5 still
  carries its old title: it was not updated in place.
\<close>

theorem saveTodo_update_counterexample:
  "saveTodo \<lparr>todoResp = Success [], deleteLabelsResp = Failure timeout,
             insertLabelsResp = Success (), fetchResp = Failure offline\<rparr> editingRent =
     (loadedState,
      [Remote (UpdateTodo 5 (js ''Pay rent now'') [] [] (js ''u1'')),
       Remote (DeleteTodoLabels 5),
       Remote (InsertTodoLabels [(5, js ''l1''), (5, js ''l2'')]),
       Remote SelectTodos,
       ConsoleError (js ''Fetch error:'') offline])
   \<and> todos loadedState = [payRent, walkDog]
   \<and> todo_title payRent = js ''Pay rent''"
  by (simp add: saveTodo_def isEditing_def updateTodo_def fetchTodos_def resetForm_def
        editingRent_def loadedState_def initialState_def trim_pay_rent_now payRent_def)
     (simp add: js_def)

text \<open>
  Claim C6, amended. In update mode (edit target set and not 0), with the three
  preconditions holding and the todo-row update succeeding, \<open>saveTodo\<close> issues,
  in this order, the update of the row's title, description, due date and assignee, the
  delete of all join rows of the identifier, one insert of a join row per selected label,
  and a fetch of the todo list. No alert is shown. The answer to the join-row delete is
  not inspected: any answer gives the same result. A failed join-row insert adds one log
  entry and does not change the resulting state. The form is cleared, and the local todo
  list is replaced by the fetched list when the fetch succeeds and left as it was when
  the fetch fails; no todo is patched in place.
\<close>

theorem saveTodo_update_amended:
  assumes "trim (title s) \<noteq> []" and "assigneeId s \<noteq> []" and "selectedLabelIds s \<noteq> []"
    and "editingId s = Some target" and "target \<noteq> 0"
    and "todoResp r = Success rows"
  shows "filter isRemote (snd (saveTodo r s)) =
           [Remote (UpdateTodo target (title s) (description s) (dueDate s) (assigneeId s)),
            Remote (DeleteTodoLabels target),
            Remote (InsertTodoLabels (map (\<lambda>labelId. (target, labelId)) (selectedLabelIds s))),
            Remote SelectTodos]
         \<and> filter isAlert (snd (saveTodo r s)) = []
         \<and> filter isConsoleError (snd (saveTodo r s)) =
             (case insertLabelsResp r of
                Failure labelsError \<Rightarrow> [ConsoleError (js ''Labels update error:'') labelsError]
              | Success u \<Rightarrow> [])
             @ (case fetchResp r of
                  Failure err \<Rightarrow> [ConsoleError (js ''Fetch error:'') err]
                | Success fetchedRows \<Rightarrow> [])
         \<and> saveTodo (r\<lparr>deleteLabelsResp := anyDelete\<rparr>) s = saveTodo r s
         \<and> fst (saveTodo (r\<lparr>insertLabelsResp := anyInsert\<rparr>) s) = fst (saveTodo r s)
         \<and> fst (saveTodo r s) =
             (resetForm s)\<lparr>todos := (case fetchResp r of
                                        Failure err \<Rightarrow> todos s
                                      | Success fetchedRows \<Rightarrow> map flattenLabels fetchedRows)\<rparr>"
proof -
  have run: "saveTodo q s = updateTodo q target s" for q
    using assms(1-5) by (rule saveTodo_update)
  have upd: "todoResp q = Success rows \<Longrightarrow> updateTodo q target s =
     ((resetForm s)\<lparr>todos := (case fetchResp q of
                                 Failure err \<Rightarrow> todos s
                               | Success fetchedRows \<Rightarrow> map flattenLabels fetchedRows)\<rparr>,
      [Remote (UpdateTodo target (title s) (description s) (dueDate s) (assigneeId s)),
       Remote (DeleteTodoLabels target),
       Remote (InsertTodoLabels (map (\<lambda>labelId. (target, labelId)) (selectedLabelIds s)))]
      @ (case insertLabelsResp q of
           Failure labelsError \<Rightarrow> [ConsoleError (js ''Labels update error:'') labelsError]
         | Success u \<Rightarrow> [])
      @ Remote SelectTodos
        # (case fetchResp q of
             Failure err \<Rightarrow> [ConsoleError (js ''Fetch error:'') err]
           | Success fetchedRows \<Rightarrow> []))" for q
    using assms(3) by (rule updateTodo_success [rotated])
  have c1: "filter isRemote (snd (saveTodo r s)) =
           [Remote (UpdateTodo target (title s) (description s) (dueDate s) (assigneeId s)),
            Remote (DeleteTodoLabels target),
            Remote (InsertTodoLabels (map (\<lambda>labelId. (target, labelId)) (selectedLabelIds s))),
            Remote SelectTodos]"
    by (cases "fetchResp r"; cases "insertLabelsResp r") (simp_all add: run upd [OF assms(6)])
  have c2: "filter isAlert (snd (saveTodo r s)) = []"
    by (cases "fetchResp r"; cases "insertLabelsResp r") (simp_all add: run upd [OF assms(6)])
  have c3: "filter isConsoleError (snd (saveTodo r s)) =
             (case insertLabelsResp r of
                Failure labelsError \<Rightarrow> [ConsoleError (js ''Labels update error:'') labelsError]
              | Success u \<Rightarrow> [])
             @ (case fetchResp r of
                  Failure err \<Rightarrow> [ConsoleError (js ''Fetch error:'') err]
                | Success fetchedRows \<Rightarrow> [])"
    by (cases "fetchResp r"; cases "insertLabelsResp r") (simp_all add: run upd [OF assms(6)])
  have c4: "saveTodo (r\<lparr>deleteLabelsResp := anyDelete\<rparr>) s = saveTodo r s"
    using assms(6) by (simp add: run upd)
  have c5: "fst (saveTodo (r\<lparr>insertLabelsResp := anyInsert\<rparr>) s) = fst (saveTodo r s)"
    using assms(6) by (simp add: run upd)
  have c6: "fst (saveTodo r s) =
             (resetForm s)\<lparr>todos := (case fetchResp r of
                                        Failure err \<Rightarrow> todos s
                                      | Success fetchedRows \<Rightarrow> map flattenLabels fetchedRows)\<rparr>"
    by (simp add: run upd [OF assms(6)])
  from c1 c2 c3 c4 c5 c6 show ?thesis by blast
qed

theorem saveTodo_update_amended_witness:
  "trim (title editingRent) \<noteq> [] \<and> assigneeId editingRent \<noteq> []
   \<and> selectedLabelIds editingRent \<noteq> [] \<and> editingId editingRent = Some 5 \<and> (5::int) \<noteq> 0
   \<and> filter isRemote
        (snd (saveTodo \<lparr>todoResp = Success [], deleteLabelsResp = Failure timeout,
                        insertLabelsResp = Failure timeout, fetchResp = Success [fetchedRent]\<rparr>
                editingRent)) =
       [Remote (UpdateTodo 5 (js ''Pay rent now'') [] [] (js ''u1'')),
        Remote (DeleteTodoLabels 5),
        Remote (InsertTodoLabels [(5, js ''l1''), (5, js ''l2'')]),
        Remote SelectTodos]
   \<and> filter isConsoleError
        (snd (saveTodo \<lparr>todoResp = Success [], deleteLabelsResp = Failure timeout,
                        insertLabelsResp = Failure timeout, fetchResp = Success [fetchedRent]\<rparr>
                editingRent)) =
       [ConsoleError (js ''Labels update error:'') timeout]
   \<and> fst (saveTodo \<lparr>todoResp = Success [], deleteLabelsResp = Failure timeout,
                     insertLabelsResp = Failure timeout, fetchResp = Success [fetchedRent]\<rparr>
             editingRent) =
       loadedState\<lparr>todos := [payRent\<lparr>todo_title := js ''Pay rent now'',
                                       todo_labels := Some [urgent, home]\<rparr>]\<rparr>"
proof -
  let ?r = "\<lparr>todoResp = Success [], deleteLabelsResp = Failure timeout,
             insertLabelsResp = Failure timeout, fetchResp = Success [fetchedRent]\<rparr>"
  have h: "trim (title editingRent) \<noteq> []" "assigneeId editingRent \<noteq> []"
    "selectedLabelIds editingRent \<noteq> []" "editingId editingRent = Some 5" "(5::int) \<noteq> 0"
    "todoResp ?r = Success []"
    by (simp_all add: editingRent_def loadedState_def initialState_def trim_pay_rent_now)
       (simp_all add: js_def)
  note inst = saveTodo_update_amended [OF h]
  have sel: "selectedLabelIds editingRent = [js ''l1'', js ''l2'']" "title editingRent = js ''Pay rent now''"
    "description editingRent = []" "dueDate editingRent = []" "assigneeId editingRent = js ''u1''"
    by (simp_all add: editingRent_def loadedState_def initialState_def)
  have st: "(resetForm editingRent)\<lparr>todos := map flattenLabels [fetchedRent]\<rparr> =
            loadedState\<lparr>todos := [payRent\<lparr>todo_title := js ''Pay rent now'',
                                       todo_labels := Some [urgent, home]\<rparr>]\<rparr>"
    by (simp add: resetForm_def editingRent_def loadedState_def initialState_def flattenLabels_def
          fetchedRent_def List.map_filter_simps)
  from inst h sel st show ?thesis by simp
qed

end
